theory Spec2Isabelle
  imports Main
begin

section \<open>The IP allow-list gate of the root route\<close>

text \<open>
  The repository holds three versions of the root route's \<open>loader\<close>:
  \<^item> \<open>src/app/root.tsx\<close> (the main variant): the allowed address comes from the
    environment, the check is skipped when it is not set, \<open>127.0.0.1\<close> and \<open>localhost\<close>
    always pass, and a denial is a thrown 403 response;
  \<^item> \<open>src/unnamed/part_000\<close>: the allowed address is the constant \<open>89.76.169.41\<close>,
    nothing else passes, and a denial is a returned 403 response;
  \<^item> \<open>src/unnamed/part_001\<close>: only \<open>x-forwarded-for\<close> and \<open>x-real-ip\<close> are read, the
    first entry is not trimmed, the allowed address defaults to \<open>127.0.0.1\<close>, and the
    success payload has no \<open>ip\<close> field.
  Each is embedded below under the source's names; the two unnamed files carry the
  suffixes \<open>_part_000\<close> and \<open>_part_001\<close>.
\<close>

subsection \<open>JavaScript strings, truthiness and the string methods used\<close>

text \<open>
  Strings are \<open>string\<close>, lists of 8-bit characters: exact for a header value that is a
  byte string (every code unit below 256); code units above 255 are outside the model. A
  value that may be \<open>null\<close> or \<open>undefined\<close> is a \<open>string option\<close>. The falsy values of
  that type are \<open>null\<close>/\<open>undefined\<close> and the empty string.
\<close>

definition truthy :: "string option \<Rightarrow> bool" where
  "truthy v = (case v of None \<Rightarrow> False | Some s \<Rightarrow> s \<noteq> [])"

text \<open>\<open>a || b\<close> where both sides may be \<open>null\<close>: the left operand when truthy, else the right.\<close>

definition js_or :: "string option \<Rightarrow> string option \<Rightarrow> string option" where
  "js_or a b = (if truthy a then a else b)"

text \<open>\<open>a || 'literal'\<close>: the right operand is a string, and so is the result.\<close>

definition js_or_str :: "string option \<Rightarrow> string \<Rightarrow> string" where
  "js_or_str a d = (case a of None \<Rightarrow> d | Some s \<Rightarrow> if s = [] then d else s)"

text \<open>
  \<open>s.split(',')\<close>: the pieces of \<open>s\<close> between the separators; the empty string gives one
  empty piece.
\<close>

fun split_on :: "char \<Rightarrow> string \<Rightarrow> string list" where
  "split_on sep [] = [[]]"
| "split_on sep (c # cs) =
     (if c = sep then [] # split_on sep cs
      else (case split_on sep cs of [] \<Rightarrow> [[c]] | w # ws \<Rightarrow> (c # w) # ws))"

text \<open>\<open>xs[i]\<close> on an array: \<open>undefined\<close> out of range.\<close>

definition nth_opt :: "'a list \<Rightarrow> nat \<Rightarrow> 'a option" where
  "nth_opt xs i = (if i < length xs then Some (xs ! i) else None)"

text \<open>
  \<open>String.prototype.trim\<close> removes white space and line terminators from both ends.
  Among the code units below 256 these are TAB, LF, VT, FF, CR, SPACE and NBSP.
\<close>

definition is_ws :: "char \<Rightarrow> bool" where
  "is_ws c = (c \<in> set [CHR 0x09, CHR 0x0A, CHR 0x0B, CHR 0x0C, CHR 0x0D, CHR 0x20, CHR 0xA0])"

definition trim :: "string \<Rightarrow> string" where
  "trim s = rev (dropWhile is_ws (rev (dropWhile is_ws s)))"

subsection \<open>Requests, environment, responses\<close>

text \<open>
  \<open>request.headers.get(name)\<close> returns the value stored under the name, or \<open>null\<close>.
  The loader only asks for lower-case names.
\<close>

record request =
  headers :: "(string \<times> string) list"

definition headers_get :: "(string \<times> string) list \<Rightarrow> string \<Rightarrow> string option" where
  "headers_get hs name = map_of hs name"

text \<open>\<open>context.env.ALLOWED_IP\<close>: a string, or \<open>undefined\<close> when the variable is not set.\<close>

record env =
  ALLOWED_IP :: "string option"

datatype json_value = JString string | JBool bool

record response =
  status :: nat
  body :: "(string \<times> json_value) list"

text \<open>\<open>json(data, init)\<close> of the framework: a response with the status of \<open>init\<close>, 200 without one.\<close>

definition json :: "(string \<times> json_value) list \<Rightarrow> nat option \<Rightarrow> response" where
  "json data init_status =
     \<lparr>status = (case init_status of None \<Rightarrow> 200 | Some s \<Rightarrow> s), body = data\<rparr>"

text \<open>
  What a loader can throw: a \<open>TypeError\<close> (a method call on \<open>undefined\<close>) or a response.
  A loader's outcome is \<open>Inl\<close> of what it threw, or \<open>Inr\<close> of the response it returned.
\<close>

datatype thrown = TypeError | ThrownResponse response

subsection \<open>\<open>src/app/root.tsx\<close>\<close>

text \<open>Lines 19-27.\<close>

definition isAllowedIp :: "string \<Rightarrow> string \<Rightarrow> bool" where
  "isAllowedIp requestIp allowedIp =
     (if requestIp = ''127.0.0.1'' \<or> requestIp = ''localhost'' then True
      else requestIp = allowedIp)"

text \<open>
  \<open>forwardedFor?.split(',')[0].trim()\<close>: \<open>undefined\<close> when \<open>forwardedFor\<close> is \<open>null\<close>;
  otherwise \<open>trim\<close> is called on the first piece, which throws if there is none.
\<close>

definition first_hop :: "string option \<Rightarrow> thrown + string option" where
  "first_hop forwardedFor =
     (case forwardedFor of
        None \<Rightarrow> Inr None
      | Some s \<Rightarrow>
          (case nth_opt (split_on CHR '','' s) 0 of
             None \<Rightarrow> Inl TypeError
           | Some piece \<Rightarrow> Inr (Some (trim piece))))"

text \<open>Lines 31-36 (the same text is lines 29-34 of \<open>part_000\<close>): the value of \<open>requestIp\<close>.\<close>

definition resolve_requestIp :: "request \<Rightarrow> thrown + string" where
  "resolve_requestIp req =
     (let forwardedFor = js_or (headers_get (headers req) ''cf-connecting-ip'')
                               (headers_get (headers req) ''x-forwarded-for'')
      in case first_hop forwardedFor of
           Inl err \<Rightarrow> Inl err
         | Inr hop \<Rightarrow>
             Inr (js_or_str (js_or hop (headers_get (headers req) ''x-real-ip''))
                    ''127.0.0.1''))"

text \<open>Lines 29-56.\<close>

definition loader :: "request \<Rightarrow> env \<Rightarrow> thrown + response" where
  "loader req e =
     (case resolve_requestIp req of
        Inl err \<Rightarrow> Inl err
      | Inr requestIp \<Rightarrow>
          (case ALLOWED_IP e of
             None \<Rightarrow> Inr (json [(''ok'', JBool True), (''ip'', JString requestIp)] None)
           | Some allowedIp \<Rightarrow>
               if allowedIp \<noteq> [] \<and> \<not> isAllowedIp requestIp allowedIp
               then Inl (ThrownResponse (json
                      [(''error'', JString ''Access denied: Unauthorized IP address''),
                       (''requestIp'', JString requestIp),
                       (''allowedIp'', JString allowedIp)] (Some 403)))
               else Inr (json [(''ok'', JBool True), (''ip'', JString requestIp)] None)))"

subsection \<open>\<open>src/unnamed/part_000\<close>\<close>

text \<open>Lines 19-25: the allowed address is a constant of the function.\<close>

definition isAllowedIp_part_000 :: "string \<Rightarrow> bool" where
  "isAllowedIp_part_000 requestIp = (let allowedIp = ''89.76.169.41'' in requestIp = allowedIp)"

text \<open>Lines 27-49: the environment is not read, and the denial is returned, not thrown.\<close>

definition loader_part_000 :: "request \<Rightarrow> env \<Rightarrow> thrown + response" where
  "loader_part_000 req e =
     (case resolve_requestIp req of
        Inl err \<Rightarrow> Inl err
      | Inr requestIp \<Rightarrow>
          if \<not> isAllowedIp_part_000 requestIp
          then Inr (json
                 [(''error'', JString ''Access denied: Unauthorized IP address''),
                  (''requestIp'', JString requestIp)] (Some 403))
          else Inr (json [(''ok'', JBool True), (''ip'', JString requestIp)] None))"

subsection \<open>\<open>src/unnamed/part_001\<close>\<close>

text \<open>
  Lines 20-22: \<open>request.headers.get('x-forwarded-for')?.split(',')[0] || ... \<close>. No method
  is called on the first piece, so a missing piece would be falsy, not an error.
\<close>

definition resolve_ip_part_001 :: "request \<Rightarrow> string" where
  "resolve_ip_part_001 req =
     (let hop = (case headers_get (headers req) ''x-forwarded-for'' of
                   None \<Rightarrow> None
                 | Some s \<Rightarrow> nth_opt (split_on CHR '','' s) 0)
      in js_or_str (js_or hop (headers_get (headers req) ''x-real-ip'')) ''127.0.0.1'')"

text \<open>Lines 19-35.\<close>

definition loader_part_001 :: "request \<Rightarrow> env \<Rightarrow> thrown + response" where
  "loader_part_001 req e =
     (let ip = resolve_ip_part_001 req;
          allowedIp = js_or_str (ALLOWED_IP e) ''127.0.0.1''
      in if ip \<noteq> allowedIp \<and> ip \<noteq> ''127.0.0.1''
         then Inl (ThrownResponse (json
                [(''error'', JString ''Access denied: Unauthorized IP address'')] (Some 403)))
         else Inr (json [(''ok'', JBool True)] None))"

section \<open>Facts about the string functions\<close>

lemma split_on_not_Nil: "split_on sep s \<noteq> []"
  by (induction s) (auto split: list.splits)

lemma hd_split_on: "hd (split_on sep s) = takeWhile (\<lambda>c. c \<noteq> sep) s"
  by (induction s) (auto split: list.splits simp: split_on_not_Nil)

lemma nth_opt_split_on_0:
  "nth_opt (split_on sep s) 0 = Some (takeWhile (\<lambda>c. c \<noteq> sep) s)"
  using split_on_not_Nil [of sep s] hd_split_on [of sep s]
  by (cases "split_on sep s") (simp_all add: nth_opt_def)

lemma first_hop_eq:
  "first_hop f = Inr (map_option (\<lambda>s. trim (takeWhile (\<lambda>c. c \<noteq> CHR '','') s)) f)"
  by (cases f) (simp_all add: first_hop_def nth_opt_split_on_0)

lemma resolve_requestIp_eq:
  "resolve_requestIp req =
     Inr (js_or_str
            (js_or (map_option (\<lambda>s. trim (takeWhile (\<lambda>c. c \<noteq> CHR '','') s))
                      (js_or (headers_get (headers req) ''cf-connecting-ip'')
                             (headers_get (headers req) ''x-forwarded-for'')))
                   (headers_get (headers req) ''x-real-ip''))
            ''127.0.0.1'')"
  by (simp add: resolve_requestIp_def first_hop_eq)

lemma js_or_str_not_Nil: "d \<noteq> [] \<Longrightarrow> js_or_str a d \<noteq> []"
  by (simp add: js_or_str_def split: option.splits)

lemma last_dropWhile_eq: "dropWhile P xs \<noteq> [] \<Longrightarrow> last (dropWhile P xs) = last xs"
  by (induction xs) (auto split: if_splits)

lemma trim_decomp:
  "s = takeWhile is_ws s @ trim s @ rev (takeWhile is_ws (rev (dropWhile is_ws s)))"
proof -
  let ?t = "dropWhile is_ws s"
  have "rev (rev ?t) = rev (takeWhile is_ws (rev ?t) @ dropWhile is_ws (rev ?t))"
    by (simp only: takeWhile_dropWhile_id)
  then have "?t = trim s @ rev (takeWhile is_ws (rev ?t))"
    by (simp only: rev_rev_ident rev_append trim_def)
  moreover have "s = takeWhile is_ws s @ ?t" by simp
  ultimately show ?thesis by simp
qed

lemma trim_hd: "trim s \<noteq> [] \<Longrightarrow> \<not> is_ws (hd (trim s))"
proof -
  assume ne: "trim s \<noteq> []"
  let ?t = "dropWhile is_ws s"
  from ne have d: "dropWhile is_ws (rev ?t) \<noteq> []" by (simp add: trim_def)
  have t: "?t \<noteq> []"
  proof
    assume "?t = []"
    with d show False by simp
  qed
  have "hd (trim s) = last (dropWhile is_ws (rev ?t))"
    using d by (simp add: trim_def hd_rev)
  also have "\<dots> = last (rev ?t)" using d by (rule last_dropWhile_eq)
  also have "\<dots> = hd ?t" using t by (simp add: last_rev)
  finally show ?thesis using t hd_dropWhile [of is_ws s] by simp
qed

lemma trim_last: "trim s \<noteq> [] \<Longrightarrow> \<not> is_ws (last (trim s))"
proof -
  assume ne: "trim s \<noteq> []"
  let ?t = "dropWhile is_ws s"
  from ne have d: "dropWhile is_ws (rev ?t) \<noteq> []" by (simp add: trim_def)
  have "last (trim s) = hd (dropWhile is_ws (rev ?t))"
    using d by (simp add: trim_def last_rev)
  then show ?thesis using d hd_dropWhile [of is_ws "rev ?t"] by simp
qed

lemma dropWhile_hd_id: "xs \<noteq> [] \<Longrightarrow> \<not> P (hd xs) \<Longrightarrow> dropWhile P xs = xs"
  by (cases xs) simp_all

lemma trim_id:
  assumes "s \<noteq> []" and "\<not> is_ws (hd s)" and "\<not> is_ws (last s)"
  shows "trim s = s"
proof -
  have "dropWhile is_ws s = s" using assms by (simp add: dropWhile_hd_id)
  moreover have "dropWhile is_ws (rev s) = rev s"
    using assms by (simp add: dropWhile_hd_id hd_rev)
  ultimately show ?thesis by (simp add: trim_def)
qed

lemma takeWhile_no_sep: "sep \<notin> set s \<Longrightarrow> takeWhile (\<lambda>c. c \<noteq> sep) s = s"
  by (induction s) auto

lemma set_trim_subset: "set (trim s) \<subseteq> set s"
proof
  fix c
  assume "c \<in> set (trim s)"
  then have "c \<in> set (dropWhile is_ws (rev (dropWhile is_ws s)))"
    by (simp add: trim_def)
  then have "c \<in> set (rev (dropWhile is_ws s))" by (rule set_dropWhileD)
  then have "c \<in> set (dropWhile is_ws s)" by simp
  then show "c \<in> set s" by (rule set_dropWhileD)
qed

lemma trim_no_sep: "sep \<notin> set s \<Longrightarrow> sep \<notin> set (trim s)"
  using set_trim_subset [of s] by blast

section \<open>Facts about address resolution\<close>

lemma resolve_requestIp_total: "\<exists>ip. resolve_requestIp req = Inr ip \<and> ip \<noteq> []"
  by (simp add: resolve_requestIp_eq js_or_str_not_Nil)

lemma resolve_ip_part_001_eq:
  "resolve_ip_part_001 req =
     js_or_str
       (js_or (map_option (takeWhile (\<lambda>c. c \<noteq> CHR '','')) (headers_get (headers req) ''x-forwarded-for''))
              (headers_get (headers req) ''x-real-ip''))
       ''127.0.0.1''"
  by (cases "headers_get (headers req) ''x-forwarded-for''")
     (simp_all add: resolve_ip_part_001_def nth_opt_split_on_0)

text \<open>The definitions a concrete request is evaluated with.\<close>

lemmas eval_defs = loader_def loader_part_000_def loader_part_001_def resolve_requestIp_def
  resolve_ip_part_001_def first_hop_def nth_opt_def js_or_def js_or_str_def truthy_def
  headers_get_def trim_def is_ws_def json_def isAllowedIp_def isAllowedIp_part_000_def

section \<open>The access decision\<close>

text \<open>
  Claim C1, as the code has it. In \<open>src/app/root.tsx\<close>, when \<open>ALLOWED_IP\<close> is not set or
  is the empty string, the loader returns the success payload for every request, with
  whatever address was resolved. In \<open>src/unnamed/part_001\<close> a missing or empty
  \<open>ALLOWED_IP\<close> is replaced by \<open>127.0.0.1\<close>, so the loader returns \<open>{ ok: true }\<close> exactly
  when the resolved address is \<open>127.0.0.1\<close> and throws the 403 response otherwise.
\<close>

theorem C1_unset_allow_list:
  "(\<not> truthy (ALLOWED_IP e) \<longrightarrow>
      (\<exists>ip. resolve_requestIp req = Inr ip \<and>
            loader req e = Inr \<lparr>status = 200, body = [(''ok'', JBool True), (''ip'', JString ip)]\<rparr>)) \<and>
   (\<not> truthy (ALLOWED_IP e) \<longrightarrow>
      loader_part_001 req e =
        (if resolve_ip_part_001 req = ''127.0.0.1''
         then Inr \<lparr>status = 200, body = [(''ok'', JBool True)]\<rparr>
         else Inl (ThrownResponse \<lparr>status = 403,
                body = [(''error'', JString ''Access denied: Unauthorized IP address'')]\<rparr>)))"
proof (intro conjI impI)
  assume off: "\<not> truthy (ALLOWED_IP e)"
  obtain ip where ip: "resolve_requestIp req = Inr ip"
    using resolve_requestIp_eq [of req] by blast
  from off have "ALLOWED_IP e = None \<or> ALLOWED_IP e = Some []"
    by (simp add: truthy_def split: option.splits)
  then have "loader req e = Inr \<lparr>status = 200, body = [(''ok'', JBool True), (''ip'', JString ip)]\<rparr>"
    by (auto simp: loader_def ip json_def)
  with ip show "\<exists>ip. resolve_requestIp req = Inr ip \<and>
            loader req e = Inr \<lparr>status = 200, body = [(''ok'', JBool True), (''ip'', JString ip)]\<rparr>"
    by blast
next
  assume off: "\<not> truthy (ALLOWED_IP e)"
  then have "js_or_str (ALLOWED_IP e) ''127.0.0.1'' = ''127.0.0.1''"
    by (simp add: truthy_def js_or_str_def split: option.splits)
  then show "loader_part_001 req e =
        (if resolve_ip_part_001 req = ''127.0.0.1''
         then Inr \<lparr>status = 200, body = [(''ok'', JBool True)]\<rparr>
         else Inl (ThrownResponse \<lparr>status = 403,
                body = [(''error'', JString ''Access denied: Unauthorized IP address'')]\<rparr>))"
    by (simp add: loader_part_001_def json_def)
qed

text \<open>
  An instance: \<open>ALLOWED_IP\<close> is the empty string and the request carries
  \<open>x-forwarded-for: 203.0.113.9\<close>.
\<close>

theorem C1_witness:
  "\<not> truthy (ALLOWED_IP \<lparr>ALLOWED_IP = Some ''''\<rparr>) \<and>
   resolve_requestIp \<lparr>headers = [(''x-forwarded-for'', ''203.0.113.9'')]\<rparr> = Inr ''203.0.113.9'' \<and>
   loader \<lparr>headers = [(''x-forwarded-for'', ''203.0.113.9'')]\<rparr> \<lparr>ALLOWED_IP = Some ''''\<rparr> =
     Inr \<lparr>status = 200, body = [(''ok'', JBool True), (''ip'', JString ''203.0.113.9'')]\<rparr> \<and>
   resolve_ip_part_001 \<lparr>headers = [(''x-forwarded-for'', ''203.0.113.9'')]\<rparr> = ''203.0.113.9'' \<and>
   loader_part_001 \<lparr>headers = [(''x-forwarded-for'', ''203.0.113.9'')]\<rparr> \<lparr>ALLOWED_IP = Some ''''\<rparr> =
     Inl (ThrownResponse \<lparr>status = 403,
            body = [(''error'', JString ''Access denied: Unauthorized IP address'')]\<rparr>)"
proof -
  have r: "resolve_requestIp \<lparr>headers = [(''x-forwarded-for'', ''203.0.113.9'')]\<rparr> = Inr ''203.0.113.9''"
    by (simp add: resolve_requestIp_def first_hop_def nth_opt_def js_or_def js_or_str_def
          truthy_def headers_get_def trim_def is_ws_def)
  have p: "resolve_ip_part_001 \<lparr>headers = [(''x-forwarded-for'', ''203.0.113.9'')]\<rparr> = ''203.0.113.9''"
    by (simp add: resolve_ip_part_001_def nth_opt_def js_or_def js_or_str_def truthy_def
          headers_get_def)
  show ?thesis
    using r p C1_unset_allow_list
      [of "\<lparr>ALLOWED_IP = Some ''''\<rparr>" "\<lparr>headers = [(''x-forwarded-for'', ''203.0.113.9'')]\<rparr>"]
    by (simp add: truthy_def)
qed

text \<open>
  Claim C1 as stated fails in \<open>src/unnamed/part_001\<close>: with \<open>ALLOWED_IP\<close> not set and
  \<open>x-forwarded-for: 203.0.113.9\<close> the loader throws the 403 response.
\<close>

theorem C1_counterexample:
  "\<not> truthy (ALLOWED_IP \<lparr>ALLOWED_IP = None\<rparr>) \<and>
   loader_part_001 \<lparr>headers = [(''x-forwarded-for'', ''203.0.113.9'')]\<rparr> \<lparr>ALLOWED_IP = None\<rparr> =
     Inl (ThrownResponse \<lparr>status = 403,
            body = [(''error'', JString ''Access denied: Unauthorized IP address'')]\<rparr>)"
  by (simp add: eval_defs)

text \<open>
  Claim C2, as the code has it. In \<open>src/app/root.tsx\<close> a request whose resolved address is
  \<open>127.0.0.1\<close> gets the success payload whatever \<open>ALLOWED_IP\<close> holds. In
  \<open>src/unnamed/part_000\<close> there is no such bypass: the allowed address is the constant
  \<open>89.76.169.41\<close>, and a request resolved to \<open>127.0.0.1\<close> gets the 403 response
  (returned, not thrown).
\<close>

theorem C2_loopback:
  "(resolve_requestIp req = Inr ''127.0.0.1'' \<longrightarrow>
      loader req e =
        Inr \<lparr>status = 200, body = [(''ok'', JBool True), (''ip'', JString ''127.0.0.1'')]\<rparr>) \<and>
   (resolve_requestIp req = Inr ''127.0.0.1'' \<longrightarrow>
      loader_part_000 req e =
        Inr \<lparr>status = 403,
             body = [(''error'', JString ''Access denied: Unauthorized IP address''),
                     (''requestIp'', JString ''127.0.0.1'')]\<rparr>)"
  by (simp add: loader_def loader_part_000_def isAllowedIp_def isAllowedIp_part_000_def json_def
           split: option.splits)

text \<open>
  An instance: a request with no headers, and \<open>ALLOWED_IP = 89.76.169.41\<close>.
\<close>

theorem C2_witness:
  "resolve_requestIp \<lparr>headers = []\<rparr> = Inr ''127.0.0.1'' \<and>
   loader \<lparr>headers = []\<rparr> \<lparr>ALLOWED_IP = Some ''89.76.169.41''\<rparr> =
     Inr \<lparr>status = 200, body = [(''ok'', JBool True), (''ip'', JString ''127.0.0.1'')]\<rparr> \<and>
   loader_part_000 \<lparr>headers = []\<rparr> \<lparr>ALLOWED_IP = Some ''89.76.169.41''\<rparr> =
     Inr \<lparr>status = 403,
          body = [(''error'', JString ''Access denied: Unauthorized IP address''),
                  (''requestIp'', JString ''127.0.0.1'')]\<rparr>"
proof -
  have r: "resolve_requestIp \<lparr>headers = []\<rparr> = Inr ''127.0.0.1''"
    by (simp add: resolve_requestIp_def first_hop_def js_or_def js_or_str_def truthy_def
          headers_get_def)
  show ?thesis
    using r C2_loopback [of "\<lparr>headers = []\<rparr>" "\<lparr>ALLOWED_IP = Some ''89.76.169.41''\<rparr>"]
    by simp
qed

text \<open>
  Claim C2 as stated fails in \<open>src/unnamed/part_000\<close>: a request with no headers resolves to
  \<open>127.0.0.1\<close> and is denied.
\<close>

theorem C2_counterexample:
  "resolve_requestIp \<lparr>headers = []\<rparr> = Inr ''127.0.0.1'' \<and>
   loader_part_000 \<lparr>headers = []\<rparr> \<lparr>ALLOWED_IP = Some ''89.76.169.41''\<rparr> =
     Inr \<lparr>status = 403,
          body = [(''error'', JString ''Access denied: Unauthorized IP address''),
                  (''requestIp'', JString ''127.0.0.1'')]\<rparr>"
  by (simp add: eval_defs)

text \<open>
  Claim C3, as the code has it. With a non-empty \<open>ALLOWED_IP\<close>, a request whose resolved
  address differs from it and is neither \<open>127.0.0.1\<close> nor, in \<open>src/app/root.tsx\<close>, the
  string \<open>localhost\<close>, makes the loader throw a response of status 403 whose body carries
  the message \<open>Access denied: Unauthorized IP address\<close> (in \<open>root.tsx\<close> together with the
  resolved and the allowed address). In \<open>src/unnamed/part_001\<close> the address is the one that
  file resolves.
\<close>

theorem C3_denied:
  "(ALLOWED_IP e = Some a \<and> a \<noteq> [] \<and> resolve_requestIp req = Inr ip \<and>
    ip \<noteq> a \<and> ip \<noteq> ''127.0.0.1'' \<and> ip \<noteq> ''localhost'' \<longrightarrow>
      loader req e =
        Inl (ThrownResponse \<lparr>status = 403,
               body = [(''error'', JString ''Access denied: Unauthorized IP address''),
                       (''requestIp'', JString ip), (''allowedIp'', JString a)]\<rparr>)) \<and>
   (ALLOWED_IP e = Some a \<and> a \<noteq> [] \<and> resolve_ip_part_001 req \<noteq> a \<and>
    resolve_ip_part_001 req \<noteq> ''127.0.0.1'' \<longrightarrow>
      loader_part_001 req e =
        Inl (ThrownResponse \<lparr>status = 403,
               body = [(''error'', JString ''Access denied: Unauthorized IP address'')]\<rparr>))"
  by (simp add: loader_def loader_part_001_def isAllowedIp_def js_or_str_def json_def)

text \<open>
  An instance: \<open>ALLOWED_IP = 89.76.169.41\<close> and \<open>x-forwarded-for: 1.2.3.4, 5.6.7.8\<close>.
\<close>

theorem C3_witness:
  "ALLOWED_IP \<lparr>ALLOWED_IP = Some ''89.76.169.41''\<rparr> = Some ''89.76.169.41'' \<and>
   ''89.76.169.41'' \<noteq> [] \<and>
   resolve_requestIp \<lparr>headers = [(''x-forwarded-for'', ''1.2.3.4, 5.6.7.8'')]\<rparr> = Inr ''1.2.3.4'' \<and>
   ''1.2.3.4'' \<noteq> ''89.76.169.41'' \<and> ''1.2.3.4'' \<noteq> ''127.0.0.1'' \<and> ''1.2.3.4'' \<noteq> ''localhost'' \<and>
   loader \<lparr>headers = [(''x-forwarded-for'', ''1.2.3.4, 5.6.7.8'')]\<rparr> \<lparr>ALLOWED_IP = Some ''89.76.169.41''\<rparr> =
     Inl (ThrownResponse \<lparr>status = 403,
            body = [(''error'', JString ''Access denied: Unauthorized IP address''),
                    (''requestIp'', JString ''1.2.3.4''), (''allowedIp'', JString ''89.76.169.41'')]\<rparr>) \<and>
   resolve_ip_part_001 \<lparr>headers = [(''x-forwarded-for'', ''1.2.3.4, 5.6.7.8'')]\<rparr> \<noteq> ''89.76.169.41'' \<and>
   resolve_ip_part_001 \<lparr>headers = [(''x-forwarded-for'', ''1.2.3.4, 5.6.7.8'')]\<rparr> \<noteq> ''127.0.0.1'' \<and>
   loader_part_001 \<lparr>headers = [(''x-forwarded-for'', ''1.2.3.4, 5.6.7.8'')]\<rparr> \<lparr>ALLOWED_IP = Some ''89.76.169.41''\<rparr> =
     Inl (ThrownResponse \<lparr>status = 403,
            body = [(''error'', JString ''Access denied: Unauthorized IP address'')]\<rparr>)"
proof -
  have r: "resolve_requestIp \<lparr>headers = [(''x-forwarded-for'', ''1.2.3.4, 5.6.7.8'')]\<rparr> = Inr ''1.2.3.4''"
    by (simp add: resolve_requestIp_def first_hop_def nth_opt_def js_or_def js_or_str_def
          truthy_def headers_get_def trim_def is_ws_def)
  have p: "resolve_ip_part_001 \<lparr>headers = [(''x-forwarded-for'', ''1.2.3.4, 5.6.7.8'')]\<rparr> = ''1.2.3.4''"
    by (simp add: resolve_ip_part_001_def nth_opt_def js_or_def js_or_str_def truthy_def
          headers_get_def)
  show ?thesis
    using r p C3_denied [of "\<lparr>ALLOWED_IP = Some ''89.76.169.41''\<rparr>" "''89.76.169.41''"
        "\<lparr>headers = [(''x-forwarded-for'', ''1.2.3.4, 5.6.7.8'')]\<rparr>" "''1.2.3.4''"]
    by simp
qed

text \<open>
  Claim C3 as stated fails in \<open>src/app/root.tsx\<close>: the address \<open>localhost\<close> differs from the
  allowed address and from \<open>127.0.0.1\<close>, and the request is let through.
\<close>

theorem C3_counterexample:
  "ALLOWED_IP \<lparr>ALLOWED_IP = Some ''89.76.169.41''\<rparr> = Some ''89.76.169.41'' \<and>
   resolve_requestIp \<lparr>headers = [(''x-forwarded-for'', ''localhost'')]\<rparr> = Inr ''localhost'' \<and>
   ''localhost'' \<noteq> ''89.76.169.41'' \<and> ''localhost'' \<noteq> ''127.0.0.1'' \<and>
   loader \<lparr>headers = [(''x-forwarded-for'', ''localhost'')]\<rparr> \<lparr>ALLOWED_IP = Some ''89.76.169.41''\<rparr> =
     Inr \<lparr>status = 200, body = [(''ok'', JBool True), (''ip'', JString ''localhost'')]\<rparr>"
  by (simp add: eval_defs)

text \<open>
  Claim C4. A request whose resolved address is equal, as a string, to the allowed address
  is let through, and the success payload carries that address: in \<open>src/app/root.tsx\<close> the
  allowed address is \<open>ALLOWED_IP\<close>, in \<open>src/unnamed/part_000\<close> it is the constant
  \<open>89.76.169.41\<close>. The comparison is plain string equality: apart from the two fixed
  bypass strings of \<open>root.tsx\<close>, \<open>isAllowedIp\<close> holds exactly when the two strings are equal.
\<close>

theorem C4_exact_match_allowed:
  "(ALLOWED_IP e = Some a \<and> resolve_requestIp req = Inr a \<longrightarrow>
      loader req e = Inr \<lparr>status = 200, body = [(''ok'', JBool True), (''ip'', JString a)]\<rparr>) \<and>
   (resolve_requestIp req = Inr ''89.76.169.41'' \<longrightarrow>
      loader_part_000 req e =
        Inr \<lparr>status = 200, body = [(''ok'', JBool True), (''ip'', JString ''89.76.169.41'')]\<rparr>) \<and>
   (requestIp \<noteq> ''127.0.0.1'' \<and> requestIp \<noteq> ''localhost'' \<longrightarrow>
      isAllowedIp requestIp allowedIp = (requestIp = allowedIp)) \<and>
   isAllowedIp_part_000 requestIp = (requestIp = ''89.76.169.41'')"
  by (simp add: loader_def loader_part_000_def isAllowedIp_def isAllowedIp_part_000_def json_def)

text \<open>
  An instance: \<open>ALLOWED_IP = 89.76.169.41\<close> and \<open>cf-connecting-ip: 89.76.169.41\<close>; and two
  addresses that differ only in letter case do not match.
\<close>

theorem C4_witness:
  "ALLOWED_IP \<lparr>ALLOWED_IP = Some ''89.76.169.41''\<rparr> = Some ''89.76.169.41'' \<and>
   resolve_requestIp \<lparr>headers = [(''cf-connecting-ip'', ''89.76.169.41'')]\<rparr> = Inr ''89.76.169.41'' \<and>
   loader \<lparr>headers = [(''cf-connecting-ip'', ''89.76.169.41'')]\<rparr> \<lparr>ALLOWED_IP = Some ''89.76.169.41''\<rparr> =
     Inr \<lparr>status = 200, body = [(''ok'', JBool True), (''ip'', JString ''89.76.169.41'')]\<rparr> \<and>
   loader_part_000 \<lparr>headers = [(''cf-connecting-ip'', ''89.76.169.41'')]\<rparr> \<lparr>ALLOWED_IP = Some ''89.76.169.41''\<rparr> =
     Inr \<lparr>status = 200, body = [(''ok'', JBool True), (''ip'', JString ''89.76.169.41'')]\<rparr> \<and>
   ''2001:DB8::1'' \<noteq> ''127.0.0.1'' \<and> ''2001:DB8::1'' \<noteq> ''localhost'' \<and>
   \<not> isAllowedIp ''2001:DB8::1'' ''2001:db8::1''"
proof -
  have r: "resolve_requestIp \<lparr>headers = [(''cf-connecting-ip'', ''89.76.169.41'')]\<rparr> = Inr ''89.76.169.41''"
    by (simp add: resolve_requestIp_def first_hop_def nth_opt_def js_or_def js_or_str_def
          truthy_def headers_get_def trim_def is_ws_def)
  show ?thesis
    using r C4_exact_match_allowed [where e = "\<lparr>ALLOWED_IP = Some ''89.76.169.41''\<rparr>"
        and a = "''89.76.169.41''" and req = "\<lparr>headers = [(''cf-connecting-ip'', ''89.76.169.41'')]\<rparr>"
        and requestIp = "''2001:DB8::1''" and allowedIp = "''2001:db8::1''"]
    by simp
qed

text \<open>
  Claim C10. In \<open>src/app/root.tsx\<close>, a request whose resolved address is the string
  \<open>localhost\<close> is let through whatever \<open>ALLOWED_IP\<close> holds.
\<close>

theorem C10_localhost_bypass:
  "resolve_requestIp req = Inr ''localhost'' \<longrightarrow>
     loader req e =
       Inr \<lparr>status = 200, body = [(''ok'', JBool True), (''ip'', JString ''localhost'')]\<rparr>"
  by (simp add: loader_def isAllowedIp_def json_def split: option.splits)

text \<open>
  An instance a client can produce: \<open>x-forwarded-for: localhost, 203.0.113.9\<close> against
  \<open>ALLOWED_IP = 89.76.169.41\<close>.
\<close>

theorem C10_witness:
  "resolve_requestIp \<lparr>headers = [(''x-forwarded-for'', ''localhost, 203.0.113.9'')]\<rparr> = Inr ''localhost'' \<and>
   loader \<lparr>headers = [(''x-forwarded-for'', ''localhost, 203.0.113.9'')]\<rparr>
       \<lparr>ALLOWED_IP = Some ''89.76.169.41''\<rparr> =
     Inr \<lparr>status = 200, body = [(''ok'', JBool True), (''ip'', JString ''localhost'')]\<rparr>"
proof -
  have r: "resolve_requestIp \<lparr>headers = [(''x-forwarded-for'', ''localhost, 203.0.113.9'')]\<rparr> = Inr ''localhost''"
    by (simp add: resolve_requestIp_def first_hop_def nth_opt_def js_or_def js_or_str_def
          truthy_def headers_get_def trim_def is_ws_def)
  show ?thesis
    using r C10_localhost_bypass [of "\<lparr>headers = [(''x-forwarded-for'', ''localhost, 203.0.113.9'')]\<rparr>"
        "\<lparr>ALLOWED_IP = Some ''89.76.169.41''\<rparr>"]
    by simp
qed

text \<open>
  Claim C8, as the code has it. In \<open>src/app/root.tsx\<close>, whenever the loader returns, the
  response has status 200 and the body \<open>{ ok: true, ip: requestIp }\<close>, where \<open>requestIp\<close> is
  the resolved address of the request. In \<open>src/unnamed/part_001\<close> the returned body is
  \<open>{ ok: true }\<close>, without the address.
\<close>

theorem C8_success_payload:
  "(loader req e = Inr r \<longrightarrow>
      (\<exists>ip. resolve_requestIp req = Inr ip \<and>
            r = \<lparr>status = 200, body = [(''ok'', JBool True), (''ip'', JString ip)]\<rparr>)) \<and>
   (loader_part_001 req' e' = Inr r' \<longrightarrow>
      r' = \<lparr>status = 200, body = [(''ok'', JBool True)]\<rparr>)"
proof (intro conjI impI)
  assume a: "loader req e = Inr r"
  obtain ip where ip: "resolve_requestIp req = Inr ip"
    using resolve_requestIp_eq [of req] by blast
  from a have "r = \<lparr>status = 200, body = [(''ok'', JBool True), (''ip'', JString ip)]\<rparr>"
    by (auto simp: loader_def ip json_def split: option.splits if_splits)
  with ip show "\<exists>ip. resolve_requestIp req = Inr ip \<and>
            r = \<lparr>status = 200, body = [(''ok'', JBool True), (''ip'', JString ip)]\<rparr>"
    by blast
next
  assume "loader_part_001 req' e' = Inr r'"
  then show "r' = \<lparr>status = 200, body = [(''ok'', JBool True)]\<rparr>"
    by (auto simp: loader_part_001_def json_def Let_def split: if_splits)
qed

text \<open>
  An instance: \<open>x-real-ip: 89.76.169.41\<close> against \<open>ALLOWED_IP = 89.76.169.41\<close>.
\<close>

theorem C8_witness:
  "loader \<lparr>headers = [(''x-real-ip'', ''89.76.169.41'')]\<rparr> \<lparr>ALLOWED_IP = Some ''89.76.169.41''\<rparr> =
     Inr \<lparr>status = 200, body = [(''ok'', JBool True), (''ip'', JString ''89.76.169.41'')]\<rparr> \<and>
   resolve_requestIp \<lparr>headers = [(''x-real-ip'', ''89.76.169.41'')]\<rparr> = Inr ''89.76.169.41'' \<and>
   loader_part_001 \<lparr>headers = [(''x-real-ip'', ''89.76.169.41'')]\<rparr> \<lparr>ALLOWED_IP = Some ''89.76.169.41''\<rparr> =
     Inr \<lparr>status = 200, body = [(''ok'', JBool True)]\<rparr>"
proof -
  have l: "loader \<lparr>headers = [(''x-real-ip'', ''89.76.169.41'')]\<rparr> \<lparr>ALLOWED_IP = Some ''89.76.169.41''\<rparr> =
     Inr \<lparr>status = 200, body = [(''ok'', JBool True), (''ip'', JString ''89.76.169.41'')]\<rparr>"
    by (simp add: eval_defs)
  have p: "\<exists>r. loader_part_001 \<lparr>headers = [(''x-real-ip'', ''89.76.169.41'')]\<rparr>
      \<lparr>ALLOWED_IP = Some ''89.76.169.41''\<rparr> = Inr r"
    by (simp add: eval_defs)
  then obtain r where r: "loader_part_001 \<lparr>headers = [(''x-real-ip'', ''89.76.169.41'')]\<rparr>
      \<lparr>ALLOWED_IP = Some ''89.76.169.41''\<rparr> = Inr r" ..
  show ?thesis
    using l r C8_success_payload
      [where req = "\<lparr>headers = [(''x-real-ip'', ''89.76.169.41'')]\<rparr>"
         and e = "\<lparr>ALLOWED_IP = Some ''89.76.169.41''\<rparr>"
         and r = "\<lparr>status = 200, body = [(''ok'', JBool True), (''ip'', JString ''89.76.169.41'')]\<rparr>"
         and req' = "\<lparr>headers = [(''x-real-ip'', ''89.76.169.41'')]\<rparr>"
         and e' = "\<lparr>ALLOWED_IP = Some ''89.76.169.41''\<rparr>"
         and r' = r]
    by auto
qed

text \<open>
  Claim C8 as stated fails in \<open>src/unnamed/part_001\<close>: the request is let through and the
  payload has no \<open>ip\<close> field.
\<close>

theorem C8_counterexample:
  "loader_part_001 \<lparr>headers = [(''x-real-ip'', ''89.76.169.41'')]\<rparr> \<lparr>ALLOWED_IP = Some ''89.76.169.41''\<rparr> =
     Inr \<lparr>status = 200, body = [(''ok'', JBool True)]\<rparr> \<and>
   resolve_ip_part_001 \<lparr>headers = [(''x-real-ip'', ''89.76.169.41'')]\<rparr> = ''89.76.169.41'' \<and>
   map_of (body \<lparr>status = 200, body = [(''ok'', JBool True)]\<rparr>) ''ip'' = None"
  by (simp add: eval_defs)

section \<open>Address resolution\<close>

text \<open>
  Claim C5, as the code has it. In \<open>src/app/root.tsx\<close>, when \<open>cf-connecting-ip\<close> is present
  and non-empty, \<open>x-forwarded-for\<close> is not consulted: two requests that agree on
  \<open>cf-connecting-ip\<close> and \<open>x-real-ip\<close> resolve alike, and the resolved address is the value of
  \<open>cf-connecting-ip\<close> itself whenever that value has no comma and no white space at either
  end. In \<open>src/unnamed/part_001\<close> it is \<open>cf-connecting-ip\<close> that is not consulted: two
  requests that agree on \<open>x-forwarded-for\<close> and \<open>x-real-ip\<close> resolve alike.
\<close>

theorem C5_edge_header_precedence:
  "(headers_get (headers req) ''cf-connecting-ip'' = Some c \<and> c \<noteq> [] \<and>
    CHR '','' \<notin> set c \<and> \<not> is_ws (hd c) \<and> \<not> is_ws (last c) \<longrightarrow>
      resolve_requestIp req = Inr c) \<and>
   (truthy (headers_get (headers r1) ''cf-connecting-ip'') \<and>
    headers_get (headers r1) ''cf-connecting-ip'' = headers_get (headers r2) ''cf-connecting-ip'' \<and>
    headers_get (headers r1) ''x-real-ip'' = headers_get (headers r2) ''x-real-ip'' \<longrightarrow>
      resolve_requestIp r1 = resolve_requestIp r2) \<and>
   (headers_get (headers r3) ''x-forwarded-for'' = headers_get (headers r4) ''x-forwarded-for'' \<and>
    headers_get (headers r3) ''x-real-ip'' = headers_get (headers r4) ''x-real-ip'' \<longrightarrow>
      resolve_ip_part_001 r3 = resolve_ip_part_001 r4)"
proof (intro conjI impI)
  assume a: "headers_get (headers req) ''cf-connecting-ip'' = Some c \<and> c \<noteq> [] \<and>
    CHR '','' \<notin> set c \<and> \<not> is_ws (hd c) \<and> \<not> is_ws (last c)"
  then show "resolve_requestIp req = Inr c"
    by (simp add: resolve_requestIp_eq js_or_def js_or_str_def truthy_def takeWhile_no_sep
          trim_id)
next
  assume "truthy (headers_get (headers r1) ''cf-connecting-ip'') \<and>
    headers_get (headers r1) ''cf-connecting-ip'' = headers_get (headers r2) ''cf-connecting-ip'' \<and>
    headers_get (headers r1) ''x-real-ip'' = headers_get (headers r2) ''x-real-ip''"
  then have t1: "truthy (headers_get (headers r1) ''cf-connecting-ip'')"
    and t2: "truthy (headers_get (headers r2) ''cf-connecting-ip'')"
    and c: "headers_get (headers r1) ''cf-connecting-ip'' = headers_get (headers r2) ''cf-connecting-ip''"
    and x: "headers_get (headers r1) ''x-real-ip'' = headers_get (headers r2) ''x-real-ip''"
    by auto
  have "resolve_requestIp r =
      Inr (js_or_str
            (js_or (map_option (\<lambda>s. trim (takeWhile (\<lambda>c. c \<noteq> CHR '','') s))
                      (headers_get (headers r) ''cf-connecting-ip''))
                   (headers_get (headers r) ''x-real-ip''))
            ''127.0.0.1'')"
    if "truthy (headers_get (headers r) ''cf-connecting-ip'')" for r
    using that by (simp add: resolve_requestIp_eq js_or_def)
  from this [OF t1] this [OF t2] show "resolve_requestIp r1 = resolve_requestIp r2"
    by (simp only: c x)
next
  assume "headers_get (headers r3) ''x-forwarded-for'' = headers_get (headers r4) ''x-forwarded-for'' \<and>
    headers_get (headers r3) ''x-real-ip'' = headers_get (headers r4) ''x-real-ip''"
  then show "resolve_ip_part_001 r3 = resolve_ip_part_001 r4"
    by (simp add: resolve_ip_part_001_eq)
qed

text \<open>
  An instance: \<open>cf-connecting-ip: 1.1.1.1\<close> and \<open>x-forwarded-for: 2.2.2.2\<close>.
\<close>

theorem C5_witness:
  "headers_get (headers \<lparr>headers = [(''cf-connecting-ip'', ''1.1.1.1''), (''x-forwarded-for'', ''2.2.2.2'')]\<rparr>)
     ''cf-connecting-ip'' = Some ''1.1.1.1'' \<and>
   ''1.1.1.1'' \<noteq> [] \<and> CHR '','' \<notin> set ''1.1.1.1'' \<and>
   \<not> is_ws (hd ''1.1.1.1'') \<and> \<not> is_ws (last ''1.1.1.1'') \<and>
   resolve_requestIp \<lparr>headers = [(''cf-connecting-ip'', ''1.1.1.1''), (''x-forwarded-for'', ''2.2.2.2'')]\<rparr>
     = Inr ''1.1.1.1'' \<and>
   truthy (headers_get (headers \<lparr>headers = [(''cf-connecting-ip'', ''1.1.1.1''), (''x-forwarded-for'', ''2.2.2.2'')]\<rparr>)
     ''cf-connecting-ip'') \<and>
   resolve_requestIp \<lparr>headers = [(''cf-connecting-ip'', ''1.1.1.1''), (''x-forwarded-for'', ''2.2.2.2'')]\<rparr> =
     resolve_requestIp \<lparr>headers = [(''cf-connecting-ip'', ''1.1.1.1'')]\<rparr> \<and>
   resolve_ip_part_001 \<lparr>headers = [(''cf-connecting-ip'', ''1.1.1.1''), (''x-forwarded-for'', ''2.2.2.2'')]\<rparr> =
     resolve_ip_part_001 \<lparr>headers = [(''x-forwarded-for'', ''2.2.2.2'')]\<rparr>"
  using C5_edge_header_precedence
    [where req = "\<lparr>headers = [(''cf-connecting-ip'', ''1.1.1.1''), (''x-forwarded-for'', ''2.2.2.2'')]\<rparr>"
       and c = "''1.1.1.1''"
       and ?r1.0 = "\<lparr>headers = [(''cf-connecting-ip'', ''1.1.1.1''), (''x-forwarded-for'', ''2.2.2.2'')]\<rparr>"
       and ?r2.0 = "\<lparr>headers = [(''cf-connecting-ip'', ''1.1.1.1'')]\<rparr>"
       and ?r3.0 = "\<lparr>headers = [(''cf-connecting-ip'', ''1.1.1.1''), (''x-forwarded-for'', ''2.2.2.2'')]\<rparr>"
       and ?r4.0 = "\<lparr>headers = [(''x-forwarded-for'', ''2.2.2.2'')]\<rparr>"]
  by (simp add: eval_defs)

text \<open>
  Claim C5 as stated fails in \<open>src/unnamed/part_001\<close>: with both headers present the
  resolved address is the one of \<open>x-forwarded-for\<close>.
\<close>

theorem C5_counterexample:
  "truthy (headers_get (headers \<lparr>headers = [(''cf-connecting-ip'', ''1.1.1.1''), (''x-forwarded-for'', ''2.2.2.2'')]\<rparr>)
     ''cf-connecting-ip'') \<and>
   truthy (headers_get (headers \<lparr>headers = [(''cf-connecting-ip'', ''1.1.1.1''), (''x-forwarded-for'', ''2.2.2.2'')]\<rparr>)
     ''x-forwarded-for'') \<and>
   resolve_ip_part_001 \<lparr>headers = [(''cf-connecting-ip'', ''1.1.1.1''), (''x-forwarded-for'', ''2.2.2.2'')]\<rparr>
     = ''2.2.2.2''"
  by (simp add: eval_defs)

text \<open>
  Claim C6, as the code has it. In \<open>src/app/root.tsx\<close>, when \<open>cf-connecting-ip\<close> is absent or
  empty and the first comma-separated entry of \<open>x-forwarded-for\<close> is not all white space,
  the resolved address is that entry with the white space at both ends removed: it has no
  comma, starts and ends with a character that is not white space, and the entry is the
  address between two runs of white space. In \<open>src/unnamed/part_001\<close> the resolved address
  is the first entry as it stands (when not empty), white space included.
\<close>

theorem C6_first_forwarded_entry:
  "(\<not> truthy (headers_get (headers req) ''cf-connecting-ip'') \<and>
    headers_get (headers req) ''x-forwarded-for'' = Some x \<and>
    trim (takeWhile (\<lambda>c. c \<noteq> CHR '','') x) \<noteq> [] \<longrightarrow>
      (\<exists>pre post ip.
         resolve_requestIp req = Inr ip \<and>
         ip = trim (takeWhile (\<lambda>c. c \<noteq> CHR '','') x) \<and>
         takeWhile (\<lambda>c. c \<noteq> CHR '','') x = pre @ ip @ post \<and>
         list_all is_ws pre \<and> list_all is_ws post \<and>
         \<not> is_ws (hd ip) \<and> \<not> is_ws (last ip) \<and> CHR '','' \<notin> set ip)) \<and>
   (headers_get (headers req') ''x-forwarded-for'' = Some x' \<and>
    takeWhile (\<lambda>c. c \<noteq> CHR '','') x' \<noteq> [] \<longrightarrow>
      resolve_ip_part_001 req' = takeWhile (\<lambda>c. c \<noteq> CHR '','') x')"
proof (intro conjI impI)
  let ?e = "takeWhile (\<lambda>c. c \<noteq> CHR '','') x"
  assume a: "\<not> truthy (headers_get (headers req) ''cf-connecting-ip'') \<and>
    headers_get (headers req) ''x-forwarded-for'' = Some x \<and> trim ?e \<noteq> []"
  then have r: "resolve_requestIp req = Inr (trim ?e)"
    by (simp add: resolve_requestIp_eq js_or_def js_or_str_def truthy_def)
  have d: "?e = takeWhile is_ws ?e @ trim ?e @ rev (takeWhile is_ws (rev (dropWhile is_ws ?e)))"
    by (rule trim_decomp)
  have p: "list_all is_ws (takeWhile is_ws ?e)"
    by (auto simp: list_all_iff dest: set_takeWhileD)
  have q: "list_all is_ws (rev (takeWhile is_ws (rev (dropWhile is_ws ?e))))"
    by (auto simp: list_all_iff dest: set_takeWhileD)
  have n: "CHR '','' \<notin> set (trim ?e)"
    by (rule trim_no_sep) (auto dest: set_takeWhileD)
  from a have h: "\<not> is_ws (hd (trim ?e))" and l: "\<not> is_ws (last (trim ?e))"
    by (simp_all add: trim_hd trim_last)
  from r d p q h l n show "\<exists>pre post ip.
         resolve_requestIp req = Inr ip \<and>
         ip = trim ?e \<and>
         ?e = pre @ ip @ post \<and>
         list_all is_ws pre \<and> list_all is_ws post \<and>
         \<not> is_ws (hd ip) \<and> \<not> is_ws (last ip) \<and> CHR '','' \<notin> set ip"
    by blast
next
  assume "headers_get (headers req') ''x-forwarded-for'' = Some x' \<and>
    takeWhile (\<lambda>c. c \<noteq> CHR '','') x' \<noteq> []"
  then show "resolve_ip_part_001 req' = takeWhile (\<lambda>c. c \<noteq> CHR '','') x'"
    by (simp add: resolve_ip_part_001_eq js_or_def js_or_str_def truthy_def)
qed

text \<open>
  An instance: \<open>x-forwarded-for\<close> holds \<open>" 1.2.3.4 , 5.6.7.8"\<close>.
\<close>

theorem C6_witness:
  "\<not> truthy (headers_get (headers \<lparr>headers = [(''x-forwarded-for'', '' 1.2.3.4 , 5.6.7.8'')]\<rparr>) ''cf-connecting-ip'') \<and>
   headers_get (headers \<lparr>headers = [(''x-forwarded-for'', '' 1.2.3.4 , 5.6.7.8'')]\<rparr>) ''x-forwarded-for''
     = Some '' 1.2.3.4 , 5.6.7.8'' \<and>
   trim (takeWhile (\<lambda>c. c \<noteq> CHR '','') '' 1.2.3.4 , 5.6.7.8'') \<noteq> [] \<and>
   resolve_requestIp \<lparr>headers = [(''x-forwarded-for'', '' 1.2.3.4 , 5.6.7.8'')]\<rparr> = Inr ''1.2.3.4'' \<and>
   takeWhile (\<lambda>c. c \<noteq> CHR '','') '' 1.2.3.4 , 5.6.7.8'' \<noteq> [] \<and>
   resolve_ip_part_001 \<lparr>headers = [(''x-forwarded-for'', '' 1.2.3.4 , 5.6.7.8'')]\<rparr> = '' 1.2.3.4 ''"
  using C6_first_forwarded_entry
    [where req = "\<lparr>headers = [(''x-forwarded-for'', '' 1.2.3.4 , 5.6.7.8'')]\<rparr>"
       and x = "'' 1.2.3.4 , 5.6.7.8''"
       and req' = "\<lparr>headers = [(''x-forwarded-for'', '' 1.2.3.4 , 5.6.7.8'')]\<rparr>"
       and x' = "'' 1.2.3.4 , 5.6.7.8''"]
  by (auto simp: truthy_def headers_get_def trim_def is_ws_def)

text \<open>
  Claim C6 as stated fails in \<open>src/unnamed/part_001\<close>: the first entry keeps its trailing
  space, and so does not match the allowed address \<open>1.2.3.4\<close>.
\<close>

theorem C6_counterexample:
  "headers_get (headers \<lparr>headers = [(''x-forwarded-for'', ''1.2.3.4 , 5.6.7.8'')]\<rparr>) ''x-forwarded-for''
     = Some ''1.2.3.4 , 5.6.7.8'' \<and>
   resolve_ip_part_001 \<lparr>headers = [(''x-forwarded-for'', ''1.2.3.4 , 5.6.7.8'')]\<rparr> = ''1.2.3.4 '' \<and>
   is_ws (last (resolve_ip_part_001 \<lparr>headers = [(''x-forwarded-for'', ''1.2.3.4 , 5.6.7.8'')]\<rparr>)) \<and>
   loader_part_001 \<lparr>headers = [(''x-forwarded-for'', ''1.2.3.4 , 5.6.7.8'')]\<rparr> \<lparr>ALLOWED_IP = Some ''1.2.3.4''\<rparr> =
     Inl (ThrownResponse \<lparr>status = 403,
            body = [(''error'', JString ''Access denied: Unauthorized IP address'')]\<rparr>)"
  by (simp add: eval_defs)

text \<open>
  Claim C7. When \<open>cf-connecting-ip\<close>, \<open>x-forwarded-for\<close> and \<open>x-real-ip\<close> are each absent or
  empty, the resolved address is \<open>127.0.0.1\<close>. Resolution returns an address for every
  request, and neither the loader of \<open>src/app/root.tsx\<close> nor that of
  \<open>src/unnamed/part_000\<close> (which resolves with the same text) throws a \<open>TypeError\<close>.
\<close>

theorem C7_absent_headers_resolve_to_loopback:
  "(\<not> truthy (headers_get (headers req) ''cf-connecting-ip'') \<and>
    \<not> truthy (headers_get (headers req) ''x-forwarded-for'') \<and>
    \<not> truthy (headers_get (headers req) ''x-real-ip'')
      \<longrightarrow> resolve_requestIp req = Inr ''127.0.0.1'') \<and>
   (\<exists>ip. resolve_requestIp req = Inr ip) \<and>
   loader req e \<noteq> Inl TypeError \<and>
   loader_part_000 req e \<noteq> Inl TypeError"
proof (intro conjI impI)
  assume a: "\<not> truthy (headers_get (headers req) ''cf-connecting-ip'') \<and>
    \<not> truthy (headers_get (headers req) ''x-forwarded-for'') \<and>
    \<not> truthy (headers_get (headers req) ''x-real-ip'')"
  then show "resolve_requestIp req = Inr ''127.0.0.1''"
    by (auto simp: resolve_requestIp_eq js_or_def js_or_str_def truthy_def trim_def
             split: option.splits)
next
  show "\<exists>ip. resolve_requestIp req = Inr ip"
    using resolve_requestIp_total [of req] by blast
next
  obtain ip where ip: "resolve_requestIp req = Inr ip"
    using resolve_requestIp_total [of req] by blast
  show "loader req e \<noteq> Inl TypeError"
    by (simp add: loader_def ip split: option.splits)
  show "loader_part_000 req e \<noteq> Inl TypeError"
    by (simp add: loader_part_000_def ip)
qed

text \<open>
  An instance: \<open>cf-connecting-ip\<close> and \<open>x-real-ip\<close> are present and empty,
  \<open>x-forwarded-for\<close> is absent.
\<close>

theorem C7_witness:
  "\<not> truthy (headers_get (headers \<lparr>headers = [(''cf-connecting-ip'', ''''), (''x-real-ip'', '''')]\<rparr>) ''cf-connecting-ip'') \<and>
   \<not> truthy (headers_get (headers \<lparr>headers = [(''cf-connecting-ip'', ''''), (''x-real-ip'', '''')]\<rparr>) ''x-forwarded-for'') \<and>
   \<not> truthy (headers_get (headers \<lparr>headers = [(''cf-connecting-ip'', ''''), (''x-real-ip'', '''')]\<rparr>) ''x-real-ip'') \<and>
   resolve_requestIp \<lparr>headers = [(''cf-connecting-ip'', ''''), (''x-real-ip'', '''')]\<rparr> = Inr ''127.0.0.1''"
  using C7_absent_headers_resolve_to_loopback
    [of "\<lparr>headers = [(''cf-connecting-ip'', ''''), (''x-real-ip'', '''')]\<rparr>"]
  by (simp add: truthy_def headers_get_def)

end
